theory Spec2Isabelle
  imports Main
begin

section \<open>jsDAV calendar-query validator (lib/CalDAV/calendarQueryValidator.js)\<close>

text \<open>
  A shallow embedding of \<^verbatim>\<open>jsDAV_CalendarQueryValidator\<close>. The validator walks two
  read-only trees: the parsed calendar object and the parsed filter. A JavaScript
  exception is a value \<open>Inl e\<close> of the result type \<open>error + bool\<close>; a returned
  (truthy or falsy) value is \<open>Inr b\<close>.
\<close>

subsection \<open>Thrown values\<close>

text \<open>
  A JavaScript value as far as the validator can throw one: \<^verbatim>\<open>undefined\<close>, or an
  exception object of \<^verbatim>\<open>lib/shared/exceptions\<close>, given by its type name and its message.
\<close>

datatype js_value = Undefined | ExceptionObject string string

text \<open>
  What leaves a function in place of a result: the value of a \<^verbatim>\<open>throw\<close> statement, or
  the \<open>TypeError\<close> of the JavaScript runtime when a property of \<^verbatim>\<open>undefined\<close> is read.
\<close>

datatype error = Thrown js_value | TypeError

subsection \<open>The calendar object tree\<close>

text \<open>
  A node of the calendar object (component, property or parameter): its \<^verbatim>\<open>name\<close>, the
  scalar of \<^verbatim>\<open>getValue()\<close>, the instant of \<^verbatim>\<open>getDateTime()\<close> in milliseconds since the
  epoch (JavaScript compares two \<^verbatim>\<open>Date\<close> objects by that number), and the nodes below
  it: the sub-components and properties of a component, the parameters of a property.
\<close>

datatype node = Node (name: string) (getValue: string) (getDateTime: int) (getChildren: "node list")

text \<open>
  Modelled from the spec: \<^verbatim>\<open>isset(name)\<close> belongs to the object model \<^verbatim>\<open>lib/VObject\<close>,
  which is not part of the validator's file. It is the spec's \<open>hasNamedChild\<close>: a child
  of that name exists.
\<close>

definition isset :: "node \<Rightarrow> string \<Rightarrow> bool" where
  "isset vObject n = (n \<in> set (map name (getChildren vObject)))"

text \<open>
  Modelled from the spec: \<^verbatim>\<open>select(name)\<close> belongs to the object model \<^verbatim>\<open>lib/VObject\<close>
  as well. It is the spec's \<open>selectNamedChildren\<close>: the children of that name, in their
  order.
\<close>

definition select :: "node \<Rightarrow> string \<Rightarrow> node list" where
  "select vObject n = filter (\<lambda>child. name child = n) (getChildren vObject)"

text \<open>
  What the validator takes from outside its file; all of it is a parameter of the model.
  \<^item> \<^verbatim>\<open>component.isInTimeRange(start, end)\<close>, the recurrence-aware test of the object
    model, and \<^verbatim>\<open>Util.textMatch(value, pattern, matchType)\<close>.
  \<^item> \<^verbatim>\<open>Exc.NotImplemented(msg)\<close> and \<^verbatim>\<open>Exc.BadRequest(msg)\<close>: the value of a plain call
    of these two exception classes of \<^verbatim>\<open>lib/shared/exceptions\<close>. Lines 260 and 272 of
    the validator call them without \<^verbatim>\<open>new\<close> and throw what the call returns.
  \<^item> \<^verbatim>\<open>new Date(1900, 1, 1)\<close> and \<^verbatim>\<open>new Date(3000, 1, 1)\<close>: midnight of the first of
    February (months count from 0) of 1900 and of 3000 in the local time zone of the
    process, in milliseconds since the epoch.
\<close>

record externals =
  isInTimeRange :: "node \<Rightarrow> int \<Rightarrow> int \<Rightarrow> bool"
  Util_textMatch :: "string \<Rightarrow> string \<Rightarrow> string \<Rightarrow> bool"
  Exc_NotImplemented :: "string \<Rightarrow> js_value"
  Exc_BadRequest :: "string \<Rightarrow> js_value"
  Date_1900_1_1 :: int
  Date_3000_1_1 :: int

subsection \<open>The filter tree\<close>

datatype text_match =
  TextMatch (tm_value: string) (match_type: string) (negate_condition: bool)

datatype time_range =
  TimeRange (range_start: "int option") (range_end: "int option")

datatype param_filter =
  ParamFilter (param_name: string) (param_is_not_defined: bool)
    (param_text_match: "text_match option")

datatype prop_filter =
  PropFilter (prop_name: string) (prop_is_not_defined: bool)
    (prop_time_range: "time_range option") (prop_text_match: "text_match option")
    (param_filters: "param_filter list")

datatype comp_filter =
  CompFilter (comp_name: string) (comp_is_not_defined: bool)
    (comp_time_range: "time_range option") (comp_filters: "comp_filter list")
    (prop_filters: "prop_filter list")

datatype filter_root =
  Filter (filter_name: string) (filter_comp_filters: "comp_filter list")
    (filter_prop_filters: "prop_filter list")

subsection \<open>Iteration helpers\<close>

text \<open>JavaScript's \<^verbatim>\<open>a && b\<close>: \<open>b\<close> is evaluated only when \<open>a\<close> returned a truthy value.\<close>

definition and_also :: "error + bool \<Rightarrow> error + bool \<Rightarrow> error + bool" where
  "and_also a b = (case a of Inl e \<Rightarrow> Inl e | Inr ok \<Rightarrow> if ok then b else Inr False)"

fun validateFilterSet :: "node \<Rightarrow> 'f list \<Rightarrow> (node \<Rightarrow> 'f \<Rightarrow> error + bool) \<Rightarrow> error + bool" where
  "validateFilterSet vObject [] validator = Inr True"
| "validateFilterSet vObject (f # filters) validator =
     (case validator vObject f of
        Inl e \<Rightarrow> Inl e
      | Inr ok \<Rightarrow> if \<not> ok then Inr False else validateFilterSet vObject filters validator)"

fun anyChildMatches :: "node list \<Rightarrow> 'f \<Rightarrow> (node \<Rightarrow> 'f \<Rightarrow> error + bool) \<Rightarrow> error + bool" where
  "anyChildMatches [] f validator = Inr False"
| "anyChildMatches (child # children) f validator =
     (case validator child f of
        Inl e \<Rightarrow> Inl e
      | Inr ok \<Rightarrow> if ok then Inr True else anyChildMatches children f validator)"

fun allChildMatches :: "node list \<Rightarrow> (node \<Rightarrow> 'f \<Rightarrow> error + bool) \<Rightarrow> 'f \<Rightarrow> error + bool" where
  "allChildMatches [] validator f = Inr True"
| "allChildMatches (child # children) validator f =
     (case validator child f of
        Inl e \<Rightarrow> Inl e
      | Inr ok \<Rightarrow> if \<not> ok then Inr False else allChildMatches children validator f)"

subsection \<open>Presence check\<close>

text \<open>
  The object \<^verbatim>\<open>{children, stop, result}\<close> returned by \<^verbatim>\<open>_checkChildPresence\<close>. When the
  name is absent the source's \<^verbatim>\<open>children\<close> is the value \<^verbatim>\<open>false\<close>, never read because
  \<open>stop\<close> holds; the model has the empty sequence there. \<^verbatim>\<open>^\<close> on two booleans is
  exclusive or.
\<close>

record presence =
  children :: "node list"
  stop :: bool
  result :: bool

definition checkChildPresence :: "node \<Rightarrow> string \<Rightarrow> bool \<Rightarrow> presence" where
  "checkChildPresence vObject componentName negateChildPresence =
     (let isChildPresent = isset vObject componentName
      in \<lparr> children = (if isChildPresent then select vObject componentName else []),
           stop = (\<not> (isChildPresent \<and> \<not> negateChildPresence)),
           result = (isChildPresent \<noteq> negateChildPresence) \<rparr>)"

text \<open>
  \<^verbatim>\<open>mkCommonValidator(continuator)\<close>. The source reads \<^verbatim>\<open>filter.name\<close> and
  \<^verbatim>\<open>filter['is-not-defined']\<close> from whichever kind of filter it is given; here the two
  accessors \<open>filterName\<close> and \<open>isNotDefined\<close> are passed along.
\<close>

definition mkCommonValidator ::
  "(node list \<Rightarrow> 'f \<Rightarrow> error + bool) \<Rightarrow> ('f \<Rightarrow> string) \<Rightarrow> ('f \<Rightarrow> bool) \<Rightarrow>
   node \<Rightarrow> 'f \<Rightarrow> error + bool" where
  "mkCommonValidator continuator filterName isNotDefined component f =
     (let r = checkChildPresence component (filterName f) (isNotDefined f)
      in if stop r then Inr (result r) else continuator (children r) f)"

subsection \<open>Text match and time range\<close>

text \<open>
  \<^verbatim>\<open>_validateTextMatch\<close>. Every node of the object tree has the \<^verbatim>\<open>jsVObject_Node\<close>
  feature, so the value is unwrapped. With \<^verbatim>\<open>textMatch\<close> absent, reading
  \<^verbatim>\<open>textMatch.value\<close> throws.
\<close>

definition validateTextMatch :: "externals \<Rightarrow> node \<Rightarrow> text_match option \<Rightarrow> error + bool" where
  "validateTextMatch X component textMatch =
     (case textMatch of
        None \<Rightarrow> Inl TypeError
      | Some tm \<Rightarrow>
          (let isMatching = Util_textMatch X (getValue component) (tm_value tm) (match_type tm)
           in Inr (negate_condition tm \<noteq> isMatching)))"

text \<open>
  \<^verbatim>\<open>_validateTimeRange\<close>. An absent bound is replaced by \<^verbatim>\<open>new Date(1900, 1, 1)\<close> or
  \<^verbatim>\<open>new Date(3000, 1, 1)\<close>. The two \<^verbatim>\<open>throw\<close> statements throw the value of the call
  \<^verbatim>\<open>Exc.NotImplemented(..)\<close> or \<^verbatim>\<open>Exc.BadRequest(..)\<close>, made without \<^verbatim>\<open>new\<close>.
\<close>

definition validateTimeRange :: "externals \<Rightarrow> node \<Rightarrow> time_range option \<Rightarrow> error + bool" where
  "validateTimeRange X component filter' =
     (case filter' of
        None \<Rightarrow> Inr True
      | Some tr \<Rightarrow>
          (let start = (case range_start tr of None \<Rightarrow> Date_1900_1_1 X | Some s \<Rightarrow> s);
               end = (case range_end tr of None \<Rightarrow> Date_3000_1_1 X | Some e \<Rightarrow> e)
           in if name component \<in> {''VEVENT'', ''VTODO'', ''VJOURNAL''}
              then Inr (isInTimeRange X component start end)
              else if name component = ''VALARM''
              then Inr False
              else if name component = ''VFREEBUSY''
              then Inl (Thrown (Exc_NotImplemented X
                          (''time-range filters are currently not supported on ''
                           @ name component @ '' components'')))
              else if name component \<in> {''COMPLETED'', ''CREATED'', ''DTEND'', ''DTSTAMP'',
                                          ''DTSTART'', ''DUE'', ''LAST-MODIFIED''}
              then Inr (start \<le> getDateTime component \<and> end \<ge> getDateTime component)
              else Inl (Thrown (Exc_BadRequest X
                          (''You cannot create a time-range filter on a ''
                           @ name component @ '' component'')))))"

definition validateTimeRangeOnComponent ::
  "externals \<Rightarrow> node \<Rightarrow> time_range option \<Rightarrow> error + bool" where
  "validateTimeRangeOnComponent X component timeRangeFilter =
     (case timeRangeFilter of
        None \<Rightarrow> Inr True
      | Some tr \<Rightarrow>
          (case anyChildMatches (getChildren component) timeRangeFilter (validateTimeRange X) of
             Inl e \<Rightarrow> Inl e
           | Inr ok \<Rightarrow> if \<not> ok then Inr False else Inr True))"

subsection \<open>The three filter validators\<close>

text \<open>
  \<^verbatim>\<open>_validateParamFilter\<close>. \<^verbatim>\<open>children[0]\<close> of an empty array is \<^verbatim>\<open>undefined\<close>, and
  \<^verbatim>\<open>_validateTextMatch\<close> reads \<^verbatim>\<open>component.hasFeature\<close> of it first, which throws.
\<close>

definition validateParamFilter :: "externals \<Rightarrow> node \<Rightarrow> param_filter \<Rightarrow> error + bool" where
  "validateParamFilter X =
     mkCommonValidator
       (\<lambda>children f.
          case children of
            [] \<Rightarrow> Inl TypeError
          | child0 # _ \<Rightarrow> validateTextMatch X child0 (param_text_match f))
       param_name param_is_not_defined"

text \<open>
  \<^verbatim>\<open>_validatePropFilter\<close>. The anonymous function it hands to \<^verbatim>\<open>_anyChildMatches\<close> is
  \<open>validatePropFilter_child\<close>: time-range, then text-match, then the param-filters, each
  tried only when the one before returned a truthy value.
\<close>

definition validatePropFilter_child :: "externals \<Rightarrow> node \<Rightarrow> prop_filter \<Rightarrow> error + bool" where
  "validatePropFilter_child X child f =
     (case validateTimeRange X child (prop_time_range f) of
        Inl e \<Rightarrow> Inl e
      | Inr inRange \<Rightarrow>
          if \<not> inRange then Inr False
          else
            (case validateTextMatch X child (prop_text_match f) of
               Inl e \<Rightarrow> Inl e
             | Inr matches \<Rightarrow>
                 if \<not> matches then Inr False
                 else validateFilterSet child (param_filters f) (validateParamFilter X)))"

definition validatePropFilter :: "externals \<Rightarrow> node \<Rightarrow> prop_filter \<Rightarrow> error + bool" where
  "validatePropFilter X =
     mkCommonValidator
       (\<lambda>children f. anyChildMatches children f (validatePropFilter_child X))
       prop_name prop_is_not_defined"

text \<open>
  The recursion of \<^verbatim>\<open>_validateCompFilter\<close> goes through the two higher-order helpers;
  these rules tell the function package on which arguments they call their validator.
\<close>

lemma validateFilterSet_cong [fundef_cong]:
  assumes "vObject = vObject'" and "filters = filters'"
    and "\<And>f. f \<in> set filters' \<Longrightarrow> validator vObject' f = validator' vObject' f"
  shows "validateFilterSet vObject filters validator = validateFilterSet vObject' filters' validator'"
  using assms(3) unfolding assms(1,2)
  by (induction filters') (auto split: sum.splits)

lemma mkCommonValidator_cong [fundef_cong]:
  assumes "component = component'" and "f = f'"
    and "\<And>children. continuator children f' = continuator' children f'"
  shows "mkCommonValidator continuator filterName isNotDefined component f =
         mkCommonValidator continuator' filterName isNotDefined component' f'"
  using assms by (simp add: mkCommonValidator_def Let_def)

lemma comp_filters_size:
  "g \<in> set (comp_filters f) \<Longrightarrow> size g < size f"
  by (cases f) (auto simp: less_Suc_eq_le dest: size_list_estimation' [where f = size and y = "size g"])

text \<open>
  \<^verbatim>\<open>_validateCompFilter\<close>. With no matched child \<^verbatim>\<open>node\<close> is \<^verbatim>\<open>undefined\<close>: a present
  time-range throws at \<^verbatim>\<open>component.getChildren()\<close>, a nested filter throws at
  \<^verbatim>\<open>vObject.isset\<close>, and with neither the loops run over nothing and the result is true.
\<close>

function validateCompFilter :: "externals \<Rightarrow> node \<Rightarrow> comp_filter \<Rightarrow> error + bool" where
  "validateCompFilter X component f =
     mkCommonValidator
       (\<lambda>children f.
          case children of
            [] \<Rightarrow>
              if comp_time_range f \<noteq> None then Inl TypeError
              else if comp_filters f = [] \<and> prop_filters f = [] then Inr True
              else Inl TypeError
          | node # _ \<Rightarrow>
              (case validateTimeRangeOnComponent X node (comp_time_range f) of
                 Inl e \<Rightarrow> Inl e
               | Inr inRange \<Rightarrow>
                   if \<not> inRange then Inr False
                   else and_also
                          (validateFilterSet node (comp_filters f) (validateCompFilter X))
                          (validateFilterSet node (prop_filters f) (validatePropFilter X))))
       comp_name comp_is_not_defined component f"
  by pat_completeness auto
termination
  by (relation "measure (\<lambda>(X, component, f). size f)") (auto simp: comp_filters_size)

subsection \<open>Entry point\<close>

definition validate :: "externals \<Rightarrow> node \<Rightarrow> filter_root option \<Rightarrow> error + bool" where
  "validate X vObject filter' =
     (case filter' of
        None \<Rightarrow> Inr True
      | Some f \<Rightarrow>
          if name vObject = filter_name f
          then and_also
                 (validateFilterSet vObject (filter_comp_filters f) (validateCompFilter X))
                 (validateFilterSet vObject (filter_prop_filters f) (validatePropFilter X))
          else Inr False)"

declare validateCompFilter.simps [simp del]

subsection \<open>Sample collaborators and calendar objects\<close>

text \<open>
  Concrete values of the parameters, for evaluating the validator on examples. A
  component is in a range when one of its \<open>DTSTART\<close> children is, and a text matches when
  it equals the pattern. The exception classes are constructor functions that fill in
  \<^verbatim>\<open>this\<close> and return nothing, so a call without \<^verbatim>\<open>new\<close> evaluates to \<^verbatim>\<open>undefined\<close>. The
  time zone is UTC.
\<close>

definition sample_externals :: externals where
  "sample_externals =
     \<lparr> isInTimeRange = (\<lambda>component start end.
          list_ex (\<lambda>p. name p = ''DTSTART'' \<and> start \<le> getDateTime p \<and> getDateTime p \<le> end)
            (getChildren component)),
       Util_textMatch = (\<lambda>val pattern matchType. val = pattern),
       Exc_NotImplemented = (\<lambda>msg. Undefined),
       Exc_BadRequest = (\<lambda>msg. Undefined),
       Date_1900_1_1 = - 2206310400000,
       Date_3000_1_1 = 32506358400000 \<rparr>"

text \<open>A \<open>VEVENT\<close> stamped on the first of December 2023, with a summary, starting on
  the fifteenth of June 2024.\<close>

definition sample_event :: node where
  "sample_event =
     Node ''VEVENT'' [] 0
       [Node ''DTSTAMP'' [] 1701388800000 [],
        Node ''SUMMARY'' ''Team Meeting'' 0 [],
        Node ''DTSTART'' [] 1718409600000 []]"

text \<open>A calendar holding that event.\<close>

definition sample_calendar :: node where
  "sample_calendar = Node ''VCALENDAR'' [] 0 [sample_event]"

text \<open>The prop-filter that only asks whether a \<open>SUMMARY\<close> exists: it has no time-range, no
  text-match and no param-filters.\<close>

definition summary_presence_filter :: prop_filter where
  "summary_presence_filter = PropFilter ''SUMMARY'' False None None []"

text \<open>The year 2024, from the first of January to the thirty-first of December, and the
  comp-filter asking for a \<open>VEVENT\<close> in it.\<close>

definition year_2024 :: time_range where
  "year_2024 = TimeRange (Some 1704067200000) (Some 1735603200000)"

definition vevent_in_2024 :: comp_filter where
  "vevent_in_2024 = CompFilter ''VEVENT'' False (Some year_2024) [] []"

text \<open>Two events, the first starting in 2025 and the second in June 2024, and a calendar
  holding them in that order.\<close>

definition event_outside :: node where
  "event_outside = Node ''VEVENT'' [] 0 [Node ''DTSTART'' [] 1735689600000 []]"

definition event_inside :: node where
  "event_inside = Node ''VEVENT'' [] 0 [Node ''DTSTART'' [] 1718409600000 []]"

definition two_event_calendar :: node where
  "two_event_calendar = Node ''VCALENDAR'' [] 0 [event_outside, event_inside]"

text \<open>The same two events in the other order, and a calendar with the first of them
  alone.\<close>

definition two_event_calendar_swapped :: node where
  "two_event_calendar_swapped = Node ''VCALENDAR'' [] 0 [event_inside, event_outside]"

definition outside_calendar :: node where
  "outside_calendar = Node ''VCALENDAR'' [] 0 [event_outside]"

text \<open>The prop-filter asking for a \<open>DTSTART\<close> in 2024: a time-range, no text-match and no
  param-filters.\<close>

definition dtstart_in_2024 :: prop_filter where
  "dtstart_in_2024 = PropFilter ''DTSTART'' False (Some year_2024) None []"

text \<open>An event starting in 2025 that holds a \<open>VFREEBUSY\<close> node, a calendar holding it, a
  prop-filter with a time-range on the \<open>VFREEBUSY\<close> node, and the comp-filter on the event
  that nests this prop-filter.\<close>

definition event_with_freebusy :: node where
  "event_with_freebusy =
     Node ''VEVENT'' [] 0
       [Node ''DTSTART'' [] 1735689600000 [],
        Node ''VFREEBUSY'' [] 0 [],
        Node ''SUMMARY'' ''Team Meeting'' 0 []]"

definition freebusy_calendar :: node where
  "freebusy_calendar = Node ''VCALENDAR'' [] 0 [event_with_freebusy]"

definition freebusy_prop_filter :: prop_filter where
  "freebusy_prop_filter = PropFilter ''VFREEBUSY'' False (Some year_2024) None []"

definition vevent_with_freebusy_prop :: comp_filter where
  "vevent_with_freebusy_prop = CompFilter ''VEVENT'' False None [] [freebusy_prop_filter]"

text \<open>An event with an alarm, a calendar holding it, and the comp-filter asking for an
  event with an alarm in 2024: the time-range sits on the nested comp-filter.\<close>

definition alarm_event :: node where
  "alarm_event =
     Node ''VEVENT'' [] 0
       [Node ''DTSTART'' [] 1718409600000 [],
        Node ''VALARM'' [] 0 [Node ''TRIGGER'' ''-PT15M'' 0 []]]"

definition alarm_calendar :: node where
  "alarm_calendar = Node ''VCALENDAR'' [] 0 [alarm_event]"

definition vevent_with_alarm_in_2024 :: comp_filter where
  "vevent_with_alarm_in_2024 =
     CompFilter ''VEVENT'' False None [CompFilter ''VALARM'' False (Some year_2024) [] []] []"

section \<open>Properties\<close>

subsection \<open>Presence check\<close>

lemma isset_select: "isset vObject n \<longleftrightarrow> select vObject n \<noteq> []"
  by (auto simp: isset_def select_def filter_empty_conv)

lemma select_name: "c \<in> set (select vObject n) \<Longrightarrow> name c = n \<and> c \<in> set (getChildren vObject)"
  by (simp add: select_def)

lemma mkCommonValidator_continue:
  "isset component (filterName f) \<Longrightarrow> \<not> isNotDefined f \<Longrightarrow>
   mkCommonValidator continuator filterName isNotDefined component f =
     continuator (select component (filterName f)) f"
  by (simp add: mkCommonValidator_def checkChildPresence_def Let_def)

subsection \<open>The loops: where they stop and what they return\<close>

lemma anyChildMatches_raises:
  "\<forall>c \<in> set pre. validator c f = Inr False \<Longrightarrow> validator c0 f = Inl e \<Longrightarrow>
   anyChildMatches (pre @ c0 # post) f validator = Inl e"
  by (induction pre) simp_all

lemma anyChildMatches_found:
  "\<forall>c \<in> set pre. validator c f = Inr False \<Longrightarrow> validator c0 f = Inr True \<Longrightarrow>
   anyChildMatches (pre @ c0 # post) f validator = Inr True"
  by (induction pre) simp_all

lemma anyChildMatches_true_split:
  "anyChildMatches cs f validator = Inr True \<Longrightarrow>
   \<exists>pre c0 post. cs = pre @ c0 # post \<and> validator c0 f = Inr True \<and>
                  (\<forall>c \<in> set pre. validator c f = Inr False)"
proof (induction cs)
  case Nil
  then show ?case by simp
next
  case (Cons c cs)
  show ?case
  proof (cases "validator c f")
    case (Inl e)
    with Cons.prems show ?thesis by simp
  next
    case (Inr ok)
    show ?thesis
    proof (cases ok)
      case True
      with Inr have "c # cs = [] @ c # cs \<and> validator c f = Inr True" by simp
      then show ?thesis by fastforce
    next
      case False
      with Inr Cons.prems have "anyChildMatches cs f validator = Inr True" by simp
      then obtain pre c0 post where
        "cs = pre @ c0 # post" "validator c0 f = Inr True" "\<forall>x \<in> set pre. validator x f = Inr False"
        using Cons.IH by blast
      with Inr False have "c # cs = (c # pre) @ c0 # post \<and> validator c0 f = Inr True \<and>
                           (\<forall>x \<in> set (c # pre). validator x f = Inr False)"
        by simp
      then show ?thesis by blast
    qed
  qed
qed

lemma anyChildMatches_true_iff:
  "anyChildMatches cs f validator = Inr True \<longleftrightarrow>
   (\<exists>pre c0 post. cs = pre @ c0 # post \<and> validator c0 f = Inr True \<and>
                   (\<forall>c \<in> set pre. validator c f = Inr False))"
  using anyChildMatches_true_split [of cs f validator] anyChildMatches_found [of _ validator f]
  by blast

lemma anyChildMatches_no_error:
  "\<forall>c \<in> set cs. \<exists>b. validator c f = Inr b \<Longrightarrow>
   anyChildMatches cs f validator = Inr (\<exists>c \<in> set cs. validator c f = Inr True)"
  by (induction cs) auto

lemma validateFilterSet_raises:
  "\<forall>g \<in> set pre. validator vObject g = Inr True \<Longrightarrow> validator vObject g0 = Inl e \<Longrightarrow>
   validateFilterSet vObject (pre @ g0 # post) validator = Inl e"
  by (induction pre) simp_all

lemma validateFilterSet_true_iff:
  "validateFilterSet vObject filters validator = Inr True \<longleftrightarrow>
   (\<forall>g \<in> set filters. validator vObject g = Inr True)"
  by (induction filters) (auto split: sum.splits)

lemma validateFilterSet_no_error:
  "\<forall>g \<in> set filters. \<exists>b. validator vObject g = Inr b \<Longrightarrow>
   \<exists>b. validateFilterSet vObject filters validator = Inr b"
  by (induction filters) auto

subsection \<open>The validators past the presence check\<close>

lemma select_Cons_isset: "select vObject n = c # rest \<Longrightarrow> isset vObject n"
  by (simp add: isset_select)

lemma validateParamFilter_continue:
  "isset vObject (param_name f) \<Longrightarrow> \<not> param_is_not_defined f \<Longrightarrow>
   validateParamFilter X vObject f =
     (case select vObject (param_name f) of
        [] \<Rightarrow> Inl TypeError
      | child0 # _ \<Rightarrow> validateTextMatch X child0 (param_text_match f))"
  by (simp add: validateParamFilter_def mkCommonValidator_continue)

lemma validatePropFilter_continue:
  "isset vObject (prop_name f) \<Longrightarrow> \<not> prop_is_not_defined f \<Longrightarrow>
   validatePropFilter X vObject f =
     anyChildMatches (select vObject (prop_name f)) f (validatePropFilter_child X)"
  by (simp add: validatePropFilter_def mkCommonValidator_continue)

lemma validateCompFilter_continue:
  assumes "select vObject (comp_name f) = node # rest" and "\<not> comp_is_not_defined f"
  shows "validateCompFilter X vObject f =
     (case validateTimeRangeOnComponent X node (comp_time_range f) of
        Inl e \<Rightarrow> Inl e
      | Inr inRange \<Rightarrow>
          if \<not> inRange then Inr False
          else and_also
                 (validateFilterSet node (comp_filters f) (validateCompFilter X))
                 (validateFilterSet node (prop_filters f) (validatePropFilter X)))"
proof -
  have "isset vObject (comp_name f)"
    using assms(1) by (rule select_Cons_isset)
  then show ?thesis
    using assms by (subst validateCompFilter.simps) (simp add: mkCommonValidator_continue)
qed

subsection \<open>How an error leaves validate\<close>

lemma validateTimeRangeOnComponent_raises:
  assumes "getChildren node = before @ c0 # after"
    and "\<forall>c \<in> set before. validateTimeRange X c (Some tr) = Inr False"
    and "validateTimeRange X c0 (Some tr) = Inl e"
  shows "validateTimeRangeOnComponent X node (Some tr) = Inl e"
  using assms by (simp add: validateTimeRangeOnComponent_def anyChildMatches_raises)

lemma validateCompFilter_raises:
  assumes "comp_time_range cf = Some tr" and "\<not> comp_is_not_defined cf"
    and "select vObject (comp_name cf) = node # rest"
    and "validateTimeRangeOnComponent X node (Some tr) = Inl e"
  shows "validateCompFilter X vObject cf = Inl e"
  using assms by (simp add: validateCompFilter_continue [where node = node and rest = rest])

lemma validatePropFilter_raises:
  assumes "\<not> prop_is_not_defined f"
    and "select vObject (prop_name f) = child0 # rest"
    and "validateTimeRange X child0 (prop_time_range f) = Inl e"
  shows "validatePropFilter X vObject f = Inl e"
proof -
  have "isset vObject (prop_name f)"
    using assms(2) by (rule select_Cons_isset)
  then show ?thesis
    using assms by (simp add: validatePropFilter_continue validatePropFilter_child_def)
qed

lemma validate_raises_comp:
  assumes "name vObject = filter_name fr"
    and "filter_comp_filters fr = pre @ cf # post"
    and "\<forall>g \<in> set pre. validateCompFilter X vObject g = Inr True"
    and "validateCompFilter X vObject cf = Inl e"
  shows "validate X vObject (Some fr) = Inl e"
  using assms by (simp add: validate_def and_also_def validateFilterSet_raises)

lemma validate_raises_prop:
  assumes "name vObject = filter_name fr"
    and "validateFilterSet vObject (filter_comp_filters fr) (validateCompFilter X) = Inr True"
    and "filter_prop_filters fr = pre @ f # post"
    and "\<forall>g \<in> set pre. validatePropFilter X vObject g = Inr True"
    and "validatePropFilter X vObject f = Inl e"
  shows "validate X vObject (Some fr) = Inl e"
  using assms by (simp add: validate_def and_also_def validateFilterSet_raises)

lemma validateCompFilter_raises_nested_comp:
  assumes "\<not> comp_is_not_defined cf" and "select vObject (comp_name cf) = node # rest"
    and "validateTimeRangeOnComponent X node (comp_time_range cf) = Inr True"
    and "comp_filters cf = pre @ g # post"
    and "\<forall>h \<in> set pre. validateCompFilter X node h = Inr True"
    and "validateCompFilter X node g = Inl e"
  shows "validateCompFilter X vObject cf = Inl e"
  using assms
  by (simp add: validateCompFilter_continue [where node = node and rest = rest]
      and_also_def validateFilterSet_raises)

lemma validateCompFilter_raises_nested_prop:
  assumes "\<not> comp_is_not_defined cf" and "select vObject (comp_name cf) = node # rest"
    and "validateTimeRangeOnComponent X node (comp_time_range cf) = Inr True"
    and "validateFilterSet node (comp_filters cf) (validateCompFilter X) = Inr True"
    and "prop_filters cf = pre @ p # post"
    and "\<forall>q \<in> set pre. validatePropFilter X node q = Inr True"
    and "validatePropFilter X node p = Inl e"
  shows "validateCompFilter X vObject cf = Inl e"
  using assms
  by (simp add: validateCompFilter_continue [where node = node and rest = rest]
      and_also_def validateFilterSet_raises)

subsection \<open>The presence table\<close>

text \<open>
  C3. For a parent and a filter name with its is-not-defined flag, the presence check
  follows the table on (exists, isNotDefined): (false, false) stops with false,
  (false, true) stops with true, (true, false) continues into the matched children,
  (true, true) stops with false; and a validator made by \<^verbatim>\<open>mkCommonValidator\<close> returns
  that result on the stop rows and calls its continuator on the matched children
  otherwise.
\<close>

theorem checkChildPresence_table:
  "(\<not> isset vObject n \<and> \<not> d \<longrightarrow>
      stop (checkChildPresence vObject n d) \<and> result (checkChildPresence vObject n d) = False) \<and>
   (\<not> isset vObject n \<and> d \<longrightarrow>
      stop (checkChildPresence vObject n d) \<and> result (checkChildPresence vObject n d) = True) \<and>
   (isset vObject n \<and> \<not> d \<longrightarrow>
      \<not> stop (checkChildPresence vObject n d) \<and>
      children (checkChildPresence vObject n d) = select vObject n) \<and>
   (isset vObject n \<and> d \<longrightarrow>
      stop (checkChildPresence vObject n d) \<and> result (checkChildPresence vObject n d) = False) \<and>
   mkCommonValidator continuator filterName isNotDefined vObject f =
     (if isset vObject (filterName f)
      then (if isNotDefined f then Inr False else continuator (select vObject (filterName f)) f)
      else (if isNotDefined f then Inr True else Inr False))"
  by (simp add: checkChildPresence_def mkCommonValidator_def Let_def)

theorem checkChildPresence_table_witness:
  "\<not> isset sample_event ''LOCATION'' \<and> isset sample_event ''SUMMARY'' \<and>
   stop (checkChildPresence sample_event ''LOCATION'' False) \<and>
   \<not> result (checkChildPresence sample_event ''LOCATION'' False) \<and>
   stop (checkChildPresence sample_event ''LOCATION'' True) \<and>
   result (checkChildPresence sample_event ''LOCATION'' True) \<and>
   \<not> stop (checkChildPresence sample_event ''SUMMARY'' False) \<and>
   children (checkChildPresence sample_event ''SUMMARY'' False) =
     [Node ''SUMMARY'' ''Team Meeting'' 0 []] \<and>
   stop (checkChildPresence sample_event ''SUMMARY'' True) \<and>
   \<not> result (checkChildPresence sample_event ''SUMMARY'' True) \<and>
   mkCommonValidator (\<lambda>children f. Inr (length children = 1)) fst snd sample_event
     (''SUMMARY'', False) = Inr True"
proof -
  have absent: "\<not> isset sample_event ''LOCATION''"
    by (simp add: isset_def sample_event_def)
  have present: "isset sample_event ''SUMMARY''"
    by (simp add: isset_def sample_event_def)
  have sel: "select sample_event ''SUMMARY'' = [Node ''SUMMARY'' ''Team Meeting'' 0 []]"
    by (simp add: select_def sample_event_def)
  note table = checkChildPresence_table
      [where vObject = sample_event and continuator = "\<lambda>children f. Inr (length children = 1)"
         and filterName = fst and isNotDefined = snd and f = "(''SUMMARY'', False)"]
  show ?thesis
    using absent present sel
      table [where n = "''LOCATION''" and d = False]
      table [where n = "''LOCATION''" and d = True]
      table [where n = "''SUMMARY''" and d = False]
      table [where n = "''SUMMARY''" and d = True]
    by simp
qed

subsection \<open>Time-range evaluator\<close>

text \<open>
  C5. For a node named COMPLETED, CREATED, DTEND, DTSTAMP, DTSTART, DUE or
  LAST-MODIFIED and a time-range with both bounds given, the time-range evaluator
  returns true exactly when start <= the node's date-time and the date-time <= end, both
  ends inclusive.
\<close>

theorem validateTimeRange_date_property:
  assumes "name component \<in> {''COMPLETED'', ''CREATED'', ''DTEND'', ''DTSTAMP'', ''DTSTART'',
                               ''DUE'', ''LAST-MODIFIED''}"
  shows "validateTimeRange X component (Some (TimeRange (Some start) (Some end))) =
           Inr (start \<le> getDateTime component \<and> getDateTime component \<le> end)"
  using assms by (auto simp: validateTimeRange_def)

theorem validateTimeRange_date_property_witness:
  "validateTimeRange sample_externals (Node ''DTSTART'' [] 1735603200000 [])
     (Some (TimeRange (Some 1704067200000) (Some 1735603200000))) = Inr True \<and>
   validateTimeRange sample_externals (Node ''DTSTART'' [] 1735689600000 [])
     (Some (TimeRange (Some 1704067200000) (Some 1735603200000))) = Inr False"
  using validateTimeRange_date_property
          [where component = "Node ''DTSTART'' [] 1735603200000 []" and X = sample_externals
             and start = 1704067200000 and ?end = 1735603200000]
        validateTimeRange_date_property
          [where component = "Node ''DTSTART'' [] 1735689600000 []" and X = sample_externals
             and start = 1704067200000 and ?end = 1735603200000]
  by simp

text \<open>
  C8. For a node named VALARM and a present time-range, the time-range evaluator
  returns false: it raises nothing and never returns true.
\<close>

theorem validateTimeRange_valarm:
  assumes "name component = ''VALARM''"
  shows "validateTimeRange X component (Some tr) = Inr False"
  using assms by (simp add: validateTimeRange_def Let_def)

theorem validateTimeRange_valarm_witness:
  "validateTimeRange sample_externals (Node ''VALARM'' [] 0 [Node ''TRIGGER'' [] 5 []])
     (Some (TimeRange (Some 0) (Some 10))) = Inr False"
  using validateTimeRange_valarm
          [where component = "Node ''VALARM'' [] 0 [Node ''TRIGGER'' [] 5 []]"
             and X = sample_externals and tr = "TimeRange (Some 0) (Some 10)"]
  by simp

subsection \<open>What the two throw statements throw\<close>

lemma validateTimeRange_vfreebusy_case:
  assumes "name component = ''VFREEBUSY''"
  shows "validateTimeRange X component (Some tr) =
           Inl (Thrown (Exc_NotImplemented X
                  ''time-range filters are currently not supported on VFREEBUSY components''))"
  using assms by (simp add: validateTimeRange_def Let_def)

lemma validateTimeRange_default_case:
  assumes "name component \<notin> {''VEVENT'', ''VTODO'', ''VJOURNAL'', ''VALARM'', ''VFREEBUSY'',
                               ''COMPLETED'', ''CREATED'', ''DTEND'', ''DTSTAMP'', ''DTSTART'',
                               ''DUE'', ''LAST-MODIFIED''}"
  shows "validateTimeRange X component (Some tr) =
           Inl (Thrown (Exc_BadRequest X
                  (''You cannot create a time-range filter on a '' @ name component
                   @ '' component'')))"
  using assms by (simp add: validateTimeRange_def Let_def)

text \<open>
  C7. For a node whose name is outside the supported set and a present time-range,
  the time-range evaluator should raise the BadRequest error. On a node named
  \<open>VTIMEZONE\<close> it returns no boolean, but what it throws is the value of the call
  \<^verbatim>\<open>Exc.BadRequest(..)\<close> made without \<^verbatim>\<open>new\<close>; the class is a constructor function, so that
  value is \<^verbatim>\<open>undefined\<close> and no BadRequest object is raised.
\<close>

theorem validateTimeRange_unsupported_name_throws:
  "validateTimeRange X (Node ''VTIMEZONE'' [] 0 []) (Some tr) =
     Inl (Thrown (Exc_BadRequest X
            ''You cannot create a time-range filter on a VTIMEZONE component'')) \<and>
   validateTimeRange sample_externals (Node ''VTIMEZONE'' [] 0 []) (Some tr) =
     Inl (Thrown Undefined)"
proof -
  have "validateTimeRange Y (Node ''VTIMEZONE'' [] 0 []) (Some tr) =
          Inl (Thrown (Exc_BadRequest Y
                 ''You cannot create a time-range filter on a VTIMEZONE component''))" for Y
    using validateTimeRange_default_case [where component = "Node ''VTIMEZONE'' [] 0 []"]
    by simp
  then show ?thesis
    by (simp add: sample_externals_def)
qed

text \<open>
  C6. For a node named VFREEBUSY and a present time-range, the time-range evaluator
  should raise the NotImplemented error, and the error should reach the caller of
  \<^verbatim>\<open>validate\<close>. The evaluator returns no boolean and what it throws does reach the
  caller, from a prop-filter of the root and from a prop-filter nested in a comp-filter;
  but the thrown value is that of the call \<^verbatim>\<open>Exc.NotImplemented(..)\<close> made without
  \<^verbatim>\<open>new\<close>, which is \<^verbatim>\<open>undefined\<close> and no NotImplemented object.
\<close>

theorem validateTimeRange_vfreebusy_throws:
  "validateTimeRange X (Node ''VFREEBUSY'' [] 0 []) (Some tr) =
     Inl (Thrown (Exc_NotImplemented X
            ''time-range filters are currently not supported on VFREEBUSY components'')) \<and>
   validate X event_with_freebusy (Some (Filter ''VEVENT'' [] [freebusy_prop_filter])) =
     Inl (Thrown (Exc_NotImplemented X
            ''time-range filters are currently not supported on VFREEBUSY components'')) \<and>
   validate X freebusy_calendar (Some (Filter ''VCALENDAR'' [vevent_with_freebusy_prop] [])) =
     Inl (Thrown (Exc_NotImplemented X
            ''time-range filters are currently not supported on VFREEBUSY components'')) \<and>
   validate sample_externals freebusy_calendar
     (Some (Filter ''VCALENDAR'' [vevent_with_freebusy_prop] [])) = Inl (Thrown Undefined)"
proof -
  let ?fb = "Node ''VFREEBUSY'' [] 0 []"
  let ?thrown = "\<lambda>Y. Inl (Thrown (Exc_NotImplemented Y
      ''time-range filters are currently not supported on VFREEBUSY components'')) :: error + bool"
  have here: "validateTimeRange Y ?fb (Some tr') = ?thrown Y" for Y tr'
    by (simp add: validateTimeRange_vfreebusy_case)
  have name_event: "name event_with_freebusy = ''VEVENT''"
    and name_calendar: "name freebusy_calendar = ''VCALENDAR''"
    by (simp_all add: event_with_freebusy_def freebusy_calendar_def)
  have sel_fb: "select event_with_freebusy (prop_name freebusy_prop_filter) = ?fb # []"
    by (simp add: select_def event_with_freebusy_def freebusy_prop_filter_def)
  have pf: "validatePropFilter Y event_with_freebusy freebusy_prop_filter = ?thrown Y" for Y
    by (rule validatePropFilter_raises [OF _ sel_fb])
       (simp_all add: freebusy_prop_filter_def here)
  have root: "validate Y event_with_freebusy
                (Some (Filter ''VEVENT'' [] [freebusy_prop_filter])) = ?thrown Y" for Y
    using pf [of Y] name_event
    by (intro validate_raises_prop [where pre = "[]" and post = "[]" and f = freebusy_prop_filter])
       simp_all
  have sel_ev: "select freebusy_calendar (comp_name vevent_with_freebusy_prop) =
                  event_with_freebusy # []"
    by (simp add: select_def freebusy_calendar_def vevent_with_freebusy_prop_def
        event_with_freebusy_def)
  have cf: "validateCompFilter Y freebusy_calendar vevent_with_freebusy_prop = ?thrown Y" for Y
    using pf [of Y]
    by (intro validateCompFilter_raises_nested_prop
          [OF _ sel_ev, where pre = "[]" and post = "[]" and p = freebusy_prop_filter])
       (simp_all add: vevent_with_freebusy_prop_def validateTimeRangeOnComponent_def)
  have nested: "validate Y freebusy_calendar
                  (Some (Filter ''VCALENDAR'' [vevent_with_freebusy_prop] [])) = ?thrown Y" for Y
    using cf [of Y] name_calendar
    by (intro validate_raises_comp
          [where pre = "[]" and post = "[]" and cf = vevent_with_freebusy_prop])
       simp_all
  have "validate sample_externals freebusy_calendar
          (Some (Filter ''VCALENDAR'' [vevent_with_freebusy_prop] [])) = Inl (Thrown Undefined)"
    by (simp add: nested sample_externals_def)
  with here root nested show ?thesis by simp
qed

subsection \<open>The first matched child\<close>

text \<open>
  C9. Whenever the presence check does not stop, the matched children it returns are
  a non-empty sequence of children of the parent that carry the filter's name; so the
  first matched child that the comp-filter and param-filter evaluators read exists, and
  both evaluators go on with it.
\<close>

theorem first_matched_child_defined:
  assumes "\<not> stop (checkChildPresence vObject n d)"
  shows "\<exists>child0 rest.
           children (checkChildPresence vObject n d) = child0 # rest \<and>
           name child0 = n \<and> child0 \<in> set (getChildren vObject) \<and>
           (\<forall>pf. param_name pf = n \<and> param_is_not_defined pf = d \<longrightarrow>
              validateParamFilter X vObject pf = validateTextMatch X child0 (param_text_match pf)) \<and>
           (\<forall>cf. comp_name cf = n \<and> comp_is_not_defined cf = d \<longrightarrow>
              validateCompFilter X vObject cf =
                (case validateTimeRangeOnComponent X child0 (comp_time_range cf) of
                   Inl e \<Rightarrow> Inl e
                 | Inr inRange \<Rightarrow>
                     if \<not> inRange then Inr False
                     else and_also
                            (validateFilterSet child0 (comp_filters cf) (validateCompFilter X))
                            (validateFilterSet child0 (prop_filters cf) (validatePropFilter X))))"
proof -
  from assms have present: "isset vObject n" and defined: "\<not> d"
    by (simp_all add: checkChildPresence_def Let_def)
  then have kids: "children (checkChildPresence vObject n d) = select vObject n"
    by (simp add: checkChildPresence_def Let_def)
  from present obtain child0 rest where sel: "select vObject n = child0 # rest"
    by (auto simp: isset_select neq_Nil_conv)
  then have "child0 \<in> set (select vObject n)" by simp
  then have nm: "name child0 = n" and mem: "child0 \<in> set (getChildren vObject)"
    by (simp_all add: select_name)
  have param: "validateParamFilter X vObject pf = validateTextMatch X child0 (param_text_match pf)"
    if "param_name pf = n \<and> param_is_not_defined pf = d" for pf
    using that present defined sel by (simp add: validateParamFilter_continue)
  have comp: "validateCompFilter X vObject cf =
                (case validateTimeRangeOnComponent X child0 (comp_time_range cf) of
                   Inl e \<Rightarrow> Inl e
                 | Inr inRange \<Rightarrow>
                     if \<not> inRange then Inr False
                     else and_also
                            (validateFilterSet child0 (comp_filters cf) (validateCompFilter X))
                            (validateFilterSet child0 (prop_filters cf) (validatePropFilter X)))"
    if "comp_name cf = n \<and> comp_is_not_defined cf = d" for cf
    using that defined sel validateCompFilter_continue [of vObject cf child0 rest X] by simp
  show ?thesis
    using kids sel nm mem param comp by simp
qed

theorem first_matched_child_defined_witness:
  "\<not> stop (checkChildPresence sample_calendar ''VEVENT'' False) \<and>
   children (checkChildPresence sample_calendar ''VEVENT'' False) = [sample_event]"
proof -
  have go: "\<not> stop (checkChildPresence sample_calendar ''VEVENT'' False)"
    by (simp add: checkChildPresence_def isset_def sample_calendar_def sample_event_def)
  have kids: "getChildren sample_calendar = [sample_event]"
    by (simp add: sample_calendar_def)
  show ?thesis
    using go kids first_matched_child_defined [OF go, where X = sample_externals]
    by (auto simp: checkChildPresence_def Let_def select_def split: if_splits)
qed

subsection \<open>The time-range of a comp-filter\<close>

text \<open>
  Two calendars that hold the same two events in different orders: the comp-filter asking
  for a \<open>VEVENT\<close> in 2024 is false on the one and true on the other, whatever the
  collaborators are.
\<close>

lemma two_event_calendars_differ:
  "validateCompFilter X two_event_calendar vevent_in_2024 = Inr False \<and>
   validateCompFilter X two_event_calendar_swapped vevent_in_2024 = Inr True"
proof -
  have sel: "select two_event_calendar (comp_name vevent_in_2024) = event_outside # [event_inside]"
    by (simp add: select_def two_event_calendar_def vevent_in_2024_def event_outside_def
        event_inside_def)
  have sel': "select two_event_calendar_swapped (comp_name vevent_in_2024) =
                event_inside # [event_outside]"
    by (simp add: select_def two_event_calendar_swapped_def vevent_in_2024_def event_outside_def
        event_inside_def)
  have out: "validateTimeRangeOnComponent X event_outside (Some year_2024) = Inr False"
    by (simp add: validateTimeRangeOnComponent_def validateTimeRange_def event_outside_def
        year_2024_def)
  have inside: "validateTimeRangeOnComponent X event_inside (Some year_2024) = Inr True"
    by (simp add: validateTimeRangeOnComponent_def validateTimeRange_def event_inside_def
        year_2024_def)
  have "validateCompFilter X two_event_calendar vevent_in_2024 = Inr False"
    using out by (subst validateCompFilter_continue [OF sel]) (simp_all add: vevent_in_2024_def)
  moreover have "validateCompFilter X two_event_calendar_swapped vevent_in_2024 = Inr True"
    using inside
    by (subst validateCompFilter_continue [OF sel'])
       (simp_all add: vevent_in_2024_def and_also_def)
  ultimately show ?thesis by simp
qed

text \<open>
  C1, as the code has it. For a comp-filter with a time-range whose named component
  exists and is not negated, the time-range condition is decided on the first matched
  component alone: the comp-filter fails or raises with the time-range check of that
  component and goes on with its nested filters when the check is satisfied, and the
  components matched after the first are never examined, so that any parent with the
  same first matched component gives the same outcome.
\<close>

theorem comp_time_range_first_matched_only:
  assumes "comp_time_range cf = Some tr" and "isset vObject (comp_name cf)"
    and "\<not> comp_is_not_defined cf"
  shows "\<exists>node rest.
     select vObject (comp_name cf) = node # rest \<and>
     validateCompFilter X vObject cf =
       (case validateTimeRangeOnComponent X node (Some tr) of
          Inl e \<Rightarrow> Inl e
        | Inr inRange \<Rightarrow>
            if \<not> inRange then Inr False
            else and_also (validateFilterSet node (comp_filters cf) (validateCompFilter X))
                          (validateFilterSet node (prop_filters cf) (validatePropFilter X))) \<and>
     (\<forall>vObject' rest'.
        select vObject' (comp_name cf) = node # rest' \<longrightarrow>
        validateCompFilter X vObject' cf = validateCompFilter X vObject cf)"
proof -
  from assms(2) obtain node rest where sel: "select vObject (comp_name cf) = node # rest"
    by (auto simp: isset_select neq_Nil_conv)
  have run: "validateCompFilter X v cf =
     (case validateTimeRangeOnComponent X node (Some tr) of
        Inl e \<Rightarrow> Inl e
      | Inr inRange \<Rightarrow>
          if \<not> inRange then Inr False
          else and_also (validateFilterSet node (comp_filters cf) (validateCompFilter X))
                        (validateFilterSet node (prop_filters cf) (validatePropFilter X)))"
    if "select v (comp_name cf) = node # others" for v others
    using validateCompFilter_continue [OF that assms(3), of X] assms(1) by simp
  have "validateCompFilter X vObject' cf = validateCompFilter X vObject cf"
    if "select vObject' (comp_name cf) = node # rest'" for vObject' rest'
    using run [OF that] run [OF sel] by simp
  with sel run [OF sel] show ?thesis by blast
qed

theorem comp_time_range_first_matched_only_witness:
  "comp_time_range vevent_in_2024 = Some year_2024 \<and>
   isset two_event_calendar (comp_name vevent_in_2024) \<and>
   \<not> comp_is_not_defined vevent_in_2024 \<and>
   select two_event_calendar (comp_name vevent_in_2024) = [event_outside, event_inside] \<and>
   select outside_calendar (comp_name vevent_in_2024) = [event_outside] \<and>
   validateTimeRange sample_externals event_inside (Some year_2024) = Inr True \<and>
   validateCompFilter sample_externals outside_calendar vevent_in_2024 =
     validateCompFilter sample_externals two_event_calendar vevent_in_2024 \<and>
   validateCompFilter sample_externals two_event_calendar vevent_in_2024 = Inr False"
proof -
  have tr: "comp_time_range vevent_in_2024 = Some year_2024"
    and defined: "\<not> comp_is_not_defined vevent_in_2024"
    by (simp_all add: vevent_in_2024_def)
  have sel: "select two_event_calendar (comp_name vevent_in_2024) = [event_outside, event_inside]"
    by (simp add: select_def two_event_calendar_def vevent_in_2024_def event_outside_def
        event_inside_def)
  then have present: "isset two_event_calendar (comp_name vevent_in_2024)"
    by (simp add: isset_select)
  have sel': "select outside_calendar (comp_name vevent_in_2024) = [event_outside]"
    by (simp add: select_def outside_calendar_def vevent_in_2024_def event_outside_def)
  have second: "validateTimeRange sample_externals event_inside (Some year_2024) = Inr True"
    by (simp add: validateTimeRange_def event_inside_def year_2024_def sample_externals_def)
  from comp_time_range_first_matched_only [OF tr present defined, where X = sample_externals]
  obtain node rest where
    first: "select two_event_calendar (comp_name vevent_in_2024) = node # rest" and
    same: "\<forall>vObject' rest'.
        select vObject' (comp_name vevent_in_2024) = node # rest' \<longrightarrow>
        validateCompFilter sample_externals vObject' vevent_in_2024 =
        validateCompFilter sample_externals two_event_calendar vevent_in_2024"
    by blast
  from first sel have "node = event_outside" by simp
  with same sel' have
    "validateCompFilter sample_externals outside_calendar vevent_in_2024 =
     validateCompFilter sample_externals two_event_calendar vevent_in_2024"
    by simp
  with tr present defined sel sel' second two_event_calendars_differ [of sample_externals]
  show ?thesis by simp
qed

text \<open>
  That any matched component may satisfy the time-range does not hold. In the two
  calendars the same components are matched, so some matched component satisfies the
  time-range in the one exactly when it does in the other, whatever the collaborators
  are; yet the comp-filter is false on the one and true on the other. With the sample
  collaborators the second event of the first calendar satisfies the time-range, and
  the comp-filter is false there.
\<close>

theorem comp_time_range_any_matched_counterexample:
  "select two_event_calendar (comp_name vevent_in_2024) = [event_outside, event_inside] \<and>
   select two_event_calendar_swapped (comp_name vevent_in_2024) = [event_inside, event_outside] \<and>
   validateCompFilter sample_externals two_event_calendar vevent_in_2024 = Inr False \<and>
   validateCompFilter sample_externals two_event_calendar_swapped vevent_in_2024 = Inr True \<and>
   validateTimeRange sample_externals event_inside (comp_time_range vevent_in_2024) = Inr True"
proof -
  have "validateTimeRange sample_externals event_inside (comp_time_range vevent_in_2024) =
          Inr True"
    by (simp add: validateTimeRange_def event_inside_def vevent_in_2024_def year_2024_def
        sample_externals_def)
  moreover have "select two_event_calendar (comp_name vevent_in_2024) = [event_outside, event_inside]"
    by (simp add: select_def two_event_calendar_def vevent_in_2024_def event_outside_def
        event_inside_def)
  moreover have "select two_event_calendar_swapped (comp_name vevent_in_2024) =
                   [event_inside, event_outside]"
    by (simp add: select_def two_event_calendar_swapped_def vevent_in_2024_def event_outside_def
        event_inside_def)
  ultimately show ?thesis
    using two_event_calendars_differ [of sample_externals] by simp
qed

text \<open>
  C10. During the time-range evaluation of a comp-filter the children of the first
  matched component are tried in order, and a child with an unsupported name that comes
  before any matching child should raise the BadRequest error out of \<^verbatim>\<open>validate\<close>. In
  the sample event the summary comes after a \<open>DTSTAMP\<close> outside the range and before the
  \<open>DTSTART\<close> inside it; in the event with an alarm the time-range sits on a nested
  comp-filter and the first child of the alarm is a \<open>TRIGGER\<close>. In both the evaluation
  stops at that child and what is thrown leaves \<^verbatim>\<open>validate\<close>; but it is the value of the
  call \<^verbatim>\<open>Exc.BadRequest(..)\<close> made without \<^verbatim>\<open>new\<close>, which is \<^verbatim>\<open>undefined\<close> and no
  BadRequest object.
\<close>

theorem comp_time_range_unsupported_child_throws:
  "validate X sample_calendar (Some (Filter ''VCALENDAR'' [vevent_in_2024] [])) =
     Inl (Thrown (Exc_BadRequest X
            ''You cannot create a time-range filter on a SUMMARY component'')) \<and>
   validate X alarm_calendar (Some (Filter ''VCALENDAR'' [vevent_with_alarm_in_2024] [])) =
     Inl (Thrown (Exc_BadRequest X
            ''You cannot create a time-range filter on a TRIGGER component'')) \<and>
   validate sample_externals sample_calendar (Some (Filter ''VCALENDAR'' [vevent_in_2024] [])) =
     Inl (Thrown Undefined)"
proof -
  let ?stamp = "Node ''DTSTAMP'' [] 1701388800000 []"
  let ?summary = "Node ''SUMMARY'' ''Team Meeting'' 0 []"
  let ?start = "Node ''DTSTART'' [] 1718409600000 []"
  let ?alarm = "Node ''VALARM'' [] 0 [Node ''TRIGGER'' ''-PT15M'' 0 []]"
  let ?valarm_in_2024 = "CompFilter ''VALARM'' False (Some year_2024) [] []"
  have names: "name sample_calendar = ''VCALENDAR''" "name alarm_calendar = ''VCALENDAR''"
    by (simp_all add: sample_calendar_def alarm_calendar_def)
  have sel: "select sample_calendar (comp_name vevent_in_2024) = sample_event # []"
    by (simp add: select_def sample_calendar_def vevent_in_2024_def sample_event_def)
  have kids: "getChildren sample_event = [?stamp] @ ?summary # [?start]"
    by (simp add: sample_event_def)
  have quiet: "\<forall>c \<in> set [?stamp]. validateTimeRange Y c (Some year_2024) = Inr False" for Y
    by (simp add: validateTimeRange_def year_2024_def)
  have summary: "validateTimeRange Y ?summary (Some year_2024) =
      Inl (Thrown (Exc_BadRequest Y
             ''You cannot create a time-range filter on a SUMMARY component''))" for Y
    using validateTimeRange_default_case [where component = ?summary] by simp
  have on_event: "validateTimeRangeOnComponent Y sample_event (Some year_2024) =
      Inl (Thrown (Exc_BadRequest Y
             ''You cannot create a time-range filter on a SUMMARY component''))" for Y
    using kids quiet summary by (rule validateTimeRangeOnComponent_raises)
  have cf: "validateCompFilter Y sample_calendar vevent_in_2024 =
      Inl (Thrown (Exc_BadRequest Y
             ''You cannot create a time-range filter on a SUMMARY component''))" for Y
    by (rule validateCompFilter_raises [OF _ _ sel on_event]) (simp_all add: vevent_in_2024_def)
  have first: "validate Y sample_calendar (Some (Filter ''VCALENDAR'' [vevent_in_2024] [])) =
      Inl (Thrown (Exc_BadRequest Y
             ''You cannot create a time-range filter on a SUMMARY component''))" for Y
    using cf [of Y] names
    by (intro validate_raises_comp [where pre = "[]" and post = "[]" and cf = vevent_in_2024])
       simp_all
  have sel_ev: "select alarm_calendar (comp_name vevent_with_alarm_in_2024) = alarm_event # []"
    by (simp add: select_def alarm_calendar_def vevent_with_alarm_in_2024_def alarm_event_def)
  have sel_alarm: "select alarm_event (comp_name ?valarm_in_2024) = ?alarm # []"
    by (simp add: select_def alarm_event_def)
  have trigger: "validateTimeRange Y (Node ''TRIGGER'' ''-PT15M'' 0 []) (Some year_2024) =
      Inl (Thrown (Exc_BadRequest Y
             ''You cannot create a time-range filter on a TRIGGER component''))" for Y
    using validateTimeRange_default_case [where component = "Node ''TRIGGER'' ''-PT15M'' 0 []"]
    by simp
  have on_alarm: "validateTimeRangeOnComponent Y ?alarm (Some year_2024) =
      Inl (Thrown (Exc_BadRequest Y
             ''You cannot create a time-range filter on a TRIGGER component''))" for Y
    using trigger [of Y]
    by (intro validateTimeRangeOnComponent_raises
          [where before = "[]" and after = "[]" and ?c0.0 = "Node ''TRIGGER'' ''-PT15M'' 0 []"])
       simp_all
  have inner: "validateCompFilter Y alarm_event ?valarm_in_2024 =
      Inl (Thrown (Exc_BadRequest Y
             ''You cannot create a time-range filter on a TRIGGER component''))" for Y
    by (rule validateCompFilter_raises [OF _ _ sel_alarm on_alarm]) simp_all
  have outer: "validateCompFilter Y alarm_calendar vevent_with_alarm_in_2024 =
      Inl (Thrown (Exc_BadRequest Y
             ''You cannot create a time-range filter on a TRIGGER component''))" for Y
    using inner [of Y]
    by (intro validateCompFilter_raises_nested_comp
          [OF _ sel_ev, where pre = "[]" and post = "[]" and g = ?valarm_in_2024])
       (simp_all add: vevent_with_alarm_in_2024_def validateTimeRangeOnComponent_def)
  have second: "validate Y alarm_calendar
                  (Some (Filter ''VCALENDAR'' [vevent_with_alarm_in_2024] [])) =
      Inl (Thrown (Exc_BadRequest Y
             ''You cannot create a time-range filter on a TRIGGER component''))" for Y
    using outer [of Y] names
    by (intro validate_raises_comp
          [where pre = "[]" and post = "[]" and cf = vevent_with_alarm_in_2024])
       simp_all
  have "validate sample_externals sample_calendar
          (Some (Filter ''VCALENDAR'' [vevent_in_2024] [])) = Inl (Thrown Undefined)"
    by (simp add: first sample_externals_def)
  with first second show ?thesis by simp
qed

subsection \<open>Matched children raise together\<close>

text \<open>
  The matched children of one filter share a name, the time-range evaluator raises by
  name only, and the text-match evaluator raises only when the text-match is absent; so
  when one matched property passes a prop-filter, no matched property raises.
\<close>

lemma validateTimeRange_same_name:
  assumes "name c' = name c" and "validateTimeRange X c tr = Inr b"
  shows "\<exists>b'. validateTimeRange X c' tr = Inr b'"
  using assms by (auto simp: validateTimeRange_def Let_def split: option.splits if_splits)

lemma validateTextMatch_present:
  assumes "validateTextMatch X c tm = Inr b"
  shows "\<exists>b'. validateTextMatch X c' tm = Inr b'"
  using assms by (auto simp: validateTextMatch_def Let_def split: option.splits)

lemma validateParamFilter_no_error:
  assumes "validateParamFilter X c pf = Inr True"
  shows "\<exists>b'. validateParamFilter X c' pf = Inr b'"
proof (cases "param_is_not_defined pf")
  case True
  then show ?thesis
    by (simp add: validateParamFilter_def mkCommonValidator_def checkChildPresence_def Let_def)
next
  case False
  have present: "isset c (param_name pf)"
  proof (rule ccontr)
    assume "\<not> isset c (param_name pf)"
    with False assms show False
      by (simp add: validateParamFilter_def mkCommonValidator_def checkChildPresence_def Let_def)
  qed
  then obtain p0 ps where "select c (param_name pf) = p0 # ps"
    by (auto simp: isset_select neq_Nil_conv)
  with assms present False have "validateTextMatch X p0 (param_text_match pf) = Inr True"
    by (simp add: validateParamFilter_continue)
  then have tm: "\<And>p. \<exists>b'. validateTextMatch X p (param_text_match pf) = Inr b'"
    by (rule validateTextMatch_present)
  show ?thesis
  proof (cases "isset c' (param_name pf)")
    case True
    then obtain q0 qs where "select c' (param_name pf) = q0 # qs"
      by (auto simp: isset_select neq_Nil_conv)
    with True False tm [of q0] show ?thesis
      by (simp add: validateParamFilter_continue)
  next
    case absent: False
    with False show ?thesis
      by (auto simp: validateParamFilter_def mkCommonValidator_def checkChildPresence_def Let_def)
  qed
qed

lemma validatePropFilter_child_true_iff:
  "validatePropFilter_child X child f = Inr True \<longleftrightarrow>
     validateTimeRange X child (prop_time_range f) = Inr True \<and>
     validateTextMatch X child (prop_text_match f) = Inr True \<and>
     (\<forall>pf \<in> set (param_filters f). validateParamFilter X child pf = Inr True)"
  by (auto simp: validatePropFilter_child_def validateFilterSet_true_iff split: sum.splits)

lemma validatePropFilter_child_no_error:
  assumes "validatePropFilter_child X c f = Inr True" and "name c' = name c"
  shows "\<exists>b'. validatePropFilter_child X c' f = Inr b'"
proof -
  from assms(1) have
    tr: "validateTimeRange X c (prop_time_range f) = Inr True" and
    tm: "validateTextMatch X c (prop_text_match f) = Inr True" and
    pfs: "\<forall>pf \<in> set (param_filters f). validateParamFilter X c pf = Inr True"
    by (simp_all add: validatePropFilter_child_true_iff)
  obtain b1 where b1: "validateTimeRange X c' (prop_time_range f) = Inr b1"
    using validateTimeRange_same_name [OF assms(2) tr] by blast
  obtain b2 where b2: "validateTextMatch X c' (prop_text_match f) = Inr b2"
    using validateTextMatch_present [OF tm] by blast
  have "\<forall>pf \<in> set (param_filters f). \<exists>b'. validateParamFilter X c' pf = Inr b'"
    using pfs validateParamFilter_no_error by blast
  then obtain b3 where b3: "validateFilterSet c' (param_filters f) (validateParamFilter X) = Inr b3"
    using validateFilterSet_no_error by blast
  show ?thesis
    using b1 b2 b3 by (auto simp: validatePropFilter_child_def)
qed

subsection \<open>Prop-filters\<close>

text \<open>
  When the prop-filter and each of its param-filters carry a text-match, the
  prop-filter on an existing, not negated property is true exactly when one matched
  property passes the time-range, the text-match and every param-filter.
\<close>

lemma validatePropFilter_true_iff:
  assumes "isset vObject (prop_name f)" and "\<not> prop_is_not_defined f"
    and "prop_text_match f \<noteq> None"
    and "\<forall>pf \<in> set (param_filters f). param_text_match pf \<noteq> None"
  shows "validatePropFilter X vObject f = Inr True \<longleftrightarrow>
     (\<exists>child \<in> set (select vObject (prop_name f)).
        validateTimeRange X child (prop_time_range f) = Inr True \<and>
        validateTextMatch X child (prop_text_match f) = Inr True \<and>
        (\<forall>pf \<in> set (param_filters f). validateParamFilter X child pf = Inr True))"
proof -
  let ?cs = "select vObject (prop_name f)"
  have run: "validatePropFilter X vObject f = anyChildMatches ?cs f (validatePropFilter_child X)"
    using assms(1,2) by (rule validatePropFilter_continue)
  have "anyChildMatches ?cs f (validatePropFilter_child X) = Inr True \<longleftrightarrow>
        (\<exists>child \<in> set ?cs. validatePropFilter_child X child f = Inr True)"
  proof
    assume "anyChildMatches ?cs f (validatePropFilter_child X) = Inr True"
    from anyChildMatches_true_split [OF this] obtain pre c0 post where
      "?cs = pre @ c0 # post" and "validatePropFilter_child X c0 f = Inr True"
      by blast
    then have "c0 \<in> set ?cs" by simp
    with \<open>validatePropFilter_child X c0 f = Inr True\<close>
    show "\<exists>child \<in> set ?cs. validatePropFilter_child X child f = Inr True" by blast
  next
    assume "\<exists>child \<in> set ?cs. validatePropFilter_child X child f = Inr True"
    then obtain c where c: "c \<in> set ?cs" "validatePropFilter_child X c f = Inr True"
      by blast
    have "\<forall>c' \<in> set ?cs. \<exists>b. validatePropFilter_child X c' f = Inr b"
    proof
      fix c' assume "c' \<in> set ?cs"
      with c(1) have "name c' = name c" by (simp add: select_name)
      with c(2) show "\<exists>b. validatePropFilter_child X c' f = Inr b"
        by (rule validatePropFilter_child_no_error)
    qed
    then have "anyChildMatches ?cs f (validatePropFilter_child X) =
               Inr (\<exists>c \<in> set ?cs. validatePropFilter_child X c f = Inr True)"
      by (rule anyChildMatches_no_error)
    with c show "anyChildMatches ?cs f (validatePropFilter_child X) = Inr True" by auto
  qed
  then show ?thesis
    by (simp add: run validatePropFilter_child_true_iff)
qed


text \<open>
  C4. A prop-filter on an existing, not negated property should be true exactly when
  one matched property satisfies the time-range, the text-match (an absent one being
  satisfied) and every param-filter. The sample event has one \<open>DTSTART\<close>, inside 2024;
  the prop-filter asking for a \<open>DTSTART\<close> in 2024 has no text-match and no param-filter,
  so that property satisfies all three. The prop-filter is not true: reading
  \<^verbatim>\<open>textMatch.value\<close> of the absent text-match raises a \<open>TypeError\<close>.
\<close>

theorem validatePropFilter_dtstart_in_range_throws:
  "isset sample_event (prop_name dtstart_in_2024) \<and>
   \<not> prop_is_not_defined dtstart_in_2024 \<and>
   select sample_event (prop_name dtstart_in_2024) = [Node ''DTSTART'' [] 1718409600000 []] \<and>
   validateTimeRange X (Node ''DTSTART'' [] 1718409600000 []) (prop_time_range dtstart_in_2024) =
     Inr True \<and>
   prop_text_match dtstart_in_2024 = None \<and>
   param_filters dtstart_in_2024 = [] \<and>
   validatePropFilter X sample_event dtstart_in_2024 = Inl TypeError"
proof -
  have sel: "select sample_event (prop_name dtstart_in_2024) =
               [Node ''DTSTART'' [] 1718409600000 []]"
    by (simp add: select_def sample_event_def dtstart_in_2024_def)
  then have present: "isset sample_event (prop_name dtstart_in_2024)"
    by (simp add: isset_select)
  have defined: "\<not> prop_is_not_defined dtstart_in_2024"
    by (simp add: dtstart_in_2024_def)
  have in_range: "validateTimeRange X (Node ''DTSTART'' [] 1718409600000 [])
                    (prop_time_range dtstart_in_2024) = Inr True"
    by (simp add: validateTimeRange_def dtstart_in_2024_def year_2024_def)
  have absent: "prop_text_match dtstart_in_2024 = None"
    and bare: "param_filters dtstart_in_2024 = []"
    by (simp_all add: dtstart_in_2024_def)
  have "validatePropFilter X sample_event dtstart_in_2024 = Inl TypeError"
    using in_range absent
    by (simp add: validatePropFilter_continue [OF present defined] sel
        validatePropFilter_child_def validateTextMatch_def)
  with sel present defined in_range absent bare show ?thesis
    by simp
qed

text \<open>
  C2. A prop-filter without a text-match, on a property that exists and is not
  negated, should come out as a boolean. On an event with a summary, the filter that
  only asks for the presence of \<open>SUMMARY\<close> raises a \<open>TypeError\<close> instead, and the error
  leaves \<^verbatim>\<open>validate\<close>: \<^verbatim>\<open>_validateTextMatch\<close> reads \<^verbatim>\<open>textMatch.value\<close> of the absent
  text-match.
\<close>

theorem validatePropFilter_absent_text_match_throws:
  "validatePropFilter X sample_event summary_presence_filter = Inl TypeError \<and>
   validate X sample_calendar
     (Some (Filter ''VCALENDAR'' [CompFilter ''VEVENT'' False None [] [summary_presence_filter]] []))
     = Inl TypeError"
proof -
  have throws: "validatePropFilter X sample_event summary_presence_filter = Inl TypeError"
    by (simp add: validatePropFilter_def mkCommonValidator_def checkChildPresence_def isset_def
        select_def sample_event_def summary_presence_filter_def validatePropFilter_child_def
        validateTimeRange_def validateTextMatch_def)
  have sel: "select sample_calendar ''VEVENT'' = [sample_event]"
    by (simp add: select_def sample_calendar_def sample_event_def)
  have "validateCompFilter X sample_calendar
          (CompFilter ''VEVENT'' False None [] [summary_presence_filter]) = Inl TypeError"
    using throws sel
    by (simp add: validateCompFilter_continue [where node = sample_event and rest = "[]"]
        validateTimeRangeOnComponent_def and_also_def)
  moreover have "name sample_calendar = ''VCALENDAR''"
    by (simp add: sample_calendar_def)
  ultimately show ?thesis
    using throws by (simp add: validate_def and_also_def)
qed

end
